theory Spec2Isabelle
  imports Complex_Main "HOL-Library.Word"
begin

section \<open>Values and records\<close>

text \<open>
  The program moves three kinds of data: JSON request bodies, instances of the
  models of \<^verbatim>\<open>schemas.py\<close>, and the documents of the store. Request bodies and document
  entries are Python values; \<open>pyval\<close> has one constructor per Python type that
  occurs. A \<^verbatim>\<open>float\<close> is modelled by the real number it denotes (rounding, infinities and
  NaN are left out), a \<^verbatim>\<open>dict\<close> inside a value by its list of items.
\<close>

datatype pyval =
    VNone
  | VBool bool
  | VInt int
  | VFloat real
  | VStr string
  | VList "pyval list"
  | VDict "(string \<times> pyval) list"

text \<open>\<^verbatim>\<open>class Variant(BaseModel)\<close>, \<^verbatim>\<open>schemas.py\<close> lines 28-30.\<close>

record Variant =
  name :: string
  options :: "string list"

text \<open>\<^verbatim>\<open>class Product(BaseModel)\<close>, \<^verbatim>\<open>schemas.py\<close> lines 32-50, one field per declaration
  and in the order of the declarations.\<close>

record Product =
  title :: string
  slug :: string
  description :: "string option"
  price :: real
  compare_at_price :: "real option"
  category :: string
  images :: "string list"
  model_url :: "string option"
  variants :: "Variant list"
  badges :: "string list"
  rating :: real
  review_count :: int
  in_stock :: bool
  specs :: "(string \<times> string) list"

text \<open>
  The dict form of a model instance (\<^verbatim>\<open>model_dump\<close>): one entry per declared field.
  A dict is a finite map; two dicts are equal when they have the same entries,
  whatever the order of insertion.
\<close>

definition opt_str :: "string option \<Rightarrow> pyval" where
  "opt_str s = (case s of None \<Rightarrow> VNone | Some t \<Rightarrow> VStr t)"

definition opt_float :: "real option \<Rightarrow> pyval" where
  "opt_float x = (case x of None \<Rightarrow> VNone | Some y \<Rightarrow> VFloat y)"

definition dump_Variant :: "Variant \<Rightarrow> pyval" where
  "dump_Variant v =
     VDict [(''name'', VStr (name v)), (''options'', VList (map VStr (options v)))]"

definition model_dump :: "Product \<Rightarrow> (string \<rightharpoonup> pyval)" where
  "model_dump p =
     [''title'' \<mapsto> VStr (title p),
      ''slug'' \<mapsto> VStr (slug p),
      ''description'' \<mapsto> opt_str (description p),
      ''price'' \<mapsto> VFloat (price p),
      ''compare_at_price'' \<mapsto> opt_float (compare_at_price p),
      ''category'' \<mapsto> VStr (category p),
      ''images'' \<mapsto> VList (map VStr (images p)),
      ''model_url'' \<mapsto> opt_str (model_url p),
      ''variants'' \<mapsto> VList (map dump_Variant (variants p)),
      ''badges'' \<mapsto> VList (map VStr (badges p)),
      ''rating'' \<mapsto> VFloat (rating p),
      ''review_count'' \<mapsto> VInt (review_count p),
      ''in_stock'' \<mapsto> VBool (in_stock p),
      ''specs'' \<mapsto> VDict (map (\<lambda>(k, v). (k, VStr v)) (specs p))]"

section \<open>The document store\<close>

text \<open>
  The store assigns every inserted document an identifier of its own type (a
  twelve-byte ObjectId) under the key \<^verbatim>\<open>_id\<close>; \<^verbatim>\<open>str\<close> of an identifier is its 24
  hexadecimal digits. A document is a dict; its \<^verbatim>\<open>_id\<close> entry, the only one that holds
  an identifier, is kept in the slot \<open>oid\<close> (\<open>None\<close> when the dict has no such key) and
  every other entry in \<open>entries\<close>.
\<close>

type_synonym objectid = "96 word"

definition hex_digit :: "nat \<Rightarrow> char" where
  "hex_digit n = ''0123456789abcdef'' ! (n mod 16)"

fun hex_digits :: "nat \<Rightarrow> nat \<Rightarrow> string" where
  "hex_digits 0 n = []"
| "hex_digits (Suc k) n = hex_digits k (n div 16) @ [hex_digit n]"

definition str_ObjectId :: "objectid \<Rightarrow> string" where
  "str_ObjectId i = hex_digits 24 (unat i)"

record document =
  oid :: "objectid option"
  entries :: "string \<rightharpoonup> pyval"

text \<open>
  A database holds, per collection name, the documents in the order of their
  insertion, and the identifier it will assign next. The handle \<^verbatim>\<open>db\<close> imported from
  \<^verbatim>\<open>database\<close> is \<open>None\<close> when no connection was established.
\<close>

record database =
  colls :: "string \<Rightarrow> document list"
  next_oid :: objectid

type_synonym db_handle = "database option"

text \<open>
  Queries. The program uses two filters, \<^verbatim>\<open>{}\<close> and \<^verbatim>\<open>{"slug": slug}\<close> with a text
  \<^verbatim>\<open>slug\<close>, so a filter is a list of (field, text) conditions. The store matches a text
  against a field that holds that text, or a list with that text among its elements.
\<close>

type_synonym query = "(string \<times> string) list"

fun field_matches :: "pyval option \<Rightarrow> string \<Rightarrow> bool" where
  "field_matches (Some (VStr s)) q = (s = q)"
| "field_matches (Some (VList vs)) q = (VStr q \<in> set vs)"
| "field_matches _ q = False"

definition matches :: "document \<Rightarrow> query \<Rightarrow> bool" where
  "matches doc flt = list_all (\<lambda>(k, q). field_matches (entries doc k) q) flt"

definition find_one :: "document list \<Rightarrow> query \<Rightarrow> document option" where
  "find_one docs flt = find (\<lambda>d. matches d flt) docs"

definition count_documents :: "document list \<Rightarrow> query \<Rightarrow> nat" where
  "count_documents docs flt = length (filter (\<lambda>d. matches d flt) docs)"

text \<open>Python's truth value of a dict: false exactly when it has no entry.\<close>

definition truthy :: "document \<Rightarrow> bool" where
  "truthy d = (oid d \<noteq> None \<or> entries d \<noteq> Map.empty)"

section \<open>Errors\<close>

text \<open>
  Every \<^verbatim>\<open>raise\<close> is a value. \<open>HTTPException\<close> carries the status code and the detail
  text; \<open>TypeError\<close> is what subscripting the handle \<open>None\<close> raises, \<open>KeyError\<close> what
  \<^verbatim>\<open>pop\<close> of an absent key raises. A request body that fails validation is answered
  with the list of its errors, each a location (field name first) and a kind.
\<close>

datatype loc_item = Name string | Idx nat

datatype err_kind =
    Missing
  | String_type
  | Float_type
  | Int_type
  | Bool_type
  | List_type
  | Dict_type
  | Model_type
  | Greater_than_equal real
  | Less_than_equal real

type_synonym error_detail = "loc_item list \<times> err_kind"

datatype error =
    HTTPException nat string
  | RequestValidationError "error_detail list"
  | TypeError
  | KeyError string
  | StorageUnavailable

definition NotFound :: error where
  "NotFound = HTTPException 404 ''Product not found''"

definition DuplicateSlug :: error where
  "DuplicateSlug = HTTPException 400 ''Slug already exists''"

section \<open>Persistence adapter\<close>

text \<open>
  Modelled from the spec: \<^verbatim>\<open>create_document\<close> of the module \<^verbatim>\<open>database\<close>, which is not
  among the sources. The spec: inserts the record and returns the store-assigned
  identifier as text, one write; fails with StorageUnavailable if no live connection
  exists. (A failure of a live backend, StorageError, does not occur in this store.)
\<close>

definition create_document ::
    "db_handle \<Rightarrow> string \<Rightarrow> Product \<Rightarrow> error + (string \<times> db_handle)" where
  "create_document db coll p =
     (case db of
        None \<Rightarrow> Inl StorageUnavailable
      | Some d \<Rightarrow>
          let i = next_oid d;
              doc = \<lparr>oid = Some i, entries = model_dump p\<rparr>
          in Inr (str_ObjectId i,
                  Some (d\<lparr>colls := (colls d)(coll := colls d coll @ [doc]),
                          next_oid := i + 1\<rparr>)))"

text \<open>
  Modelled from the spec: \<^verbatim>\<open>get_documents\<close> of the module \<^verbatim>\<open>database\<close>, which is not
  among the sources. The spec: returns up to \<open>limit\<close> matching records in the store's
  natural order; \<open>limit\<close> defaults to 20 when unspecified; a limit of 0 or negative is
  implementer-defined but must not crash (here: no record).
\<close>

definition get_documents ::
    "db_handle \<Rightarrow> string \<Rightarrow> query \<Rightarrow> int option \<Rightarrow> error + document list" where
  "get_documents db coll flt limit =
     (case db of
        None \<Rightarrow> Inl StorageUnavailable
      | Some d \<Rightarrow>
          let n = (case limit of None \<Rightarrow> 20 | Some l \<Rightarrow> l)
          in Inr (take (nat n) (filter (\<lambda>doc. matches doc flt) (colls d coll))))"

section \<open>Catalog service\<close>

definition product_collection :: string where
  "product_collection = ''product''"

text \<open>\<^verbatim>\<open>if "_id" in d: d["id"] = str(d.pop("_id"))\<close>, the body of the loop of
  \<^verbatim>\<open>list_products\<close>.\<close>

definition rename_id :: "document \<Rightarrow> document" where
  "rename_id d =
     (case oid d of
        None \<Rightarrow> d
      | Some i \<Rightarrow> d\<lparr>oid := None, entries := (entries d)(''id'' \<mapsto> VStr (str_ObjectId i))\<rparr>)"

definition list_products :: "db_handle \<Rightarrow> int option \<Rightarrow> error + document list" where
  "list_products db limit =
     (case get_documents db product_collection [] limit of
        Inl e \<Rightarrow> Inl e
      | Inr docs \<Rightarrow> Inr (map rename_id docs))"

definition get_product :: "db_handle \<Rightarrow> string \<Rightarrow> error + document" where
  "get_product db s =
     (case db of
        None \<Rightarrow> Inl TypeError
      | Some d \<Rightarrow>
          (case find_one (colls d product_collection) [(''slug'', s)] of
             None \<Rightarrow> Inl (HTTPException 404 ''Product not found'')
           | Some doc \<Rightarrow>
               if \<not> truthy doc then Inl (HTTPException 404 ''Product not found'')
               else (case oid doc of
                       None \<Rightarrow> Inl (KeyError ''_id'')
                     | Some i \<Rightarrow>
                         Inr (doc\<lparr>oid := None,
                                  entries := (entries doc)(''id'' \<mapsto> VStr (str_ObjectId i))\<rparr>))))"

type_synonym response = "(string \<times> string) list"

definition create_product ::
    "db_handle \<Rightarrow> Product \<Rightarrow> error + (response \<times> db_handle)" where
  "create_product db payload =
     (case db of
        None \<Rightarrow> Inl TypeError
      | Some d \<Rightarrow>
          (case find_one (colls d product_collection) [(''slug'', slug payload)] of
             Some doc \<Rightarrow>
               if truthy doc then Inl (HTTPException 400 ''Slug already exists'')
               else (case create_document db product_collection payload of
                       Inl e \<Rightarrow> Inl e
                     | Inr (new_id, db') \<Rightarrow> Inr ([(''id'', new_id)], db'))
           | None \<Rightarrow>
               (case create_document db product_collection payload of
                  Inl e \<Rightarrow> Inl e
                | Inr (new_id, db') \<Rightarrow> Inr ([(''id'', new_id)], db'))))"

section \<open>Seeding\<close>

text \<open>The two literals of \<^verbatim>\<open>seed_demo_products\<close>, \<^verbatim>\<open>main.py\<close> lines 109-154.\<close>

definition demo :: "Product list" where
  "demo =
    [\<lparr>title = ''Specter Series X1'',
      slug = ''specter-series-x1'',
      description = Some ''Monolithic precision. Forged for power.'',
      price = 1299,
      compare_at_price = Some 1499,
      category = ''hardware'',
      images =
        [''https://images.unsplash.com/photo-1527443154391-507e9dc6c5cc?q=80&w=1600&auto=format&fit=crop'',
         ''https://images.unsplash.com/photo-1542751371-adc38448a05e?q=80&w=1600&auto=format&fit=crop''],
      model_url = Some ''https://prod.spline.design/8J9sS3L8q1sV9t8A/scene.splinecode'',
      variants =
        [\<lparr>name = ''Finish'', options = [''Obsidian Black'', ''Liquid Silver'']\<rparr>,
         \<lparr>name = ''Capacity'', options = [''256GB'', ''512GB'', ''1TB'']\<rparr>],
      badges = [''2-Year Warranty'', ''Free Express Shipping'', ''30-Day Returns''],
      rating = 4.9,
      review_count = 312,
      in_stock = True,
      specs = [(''CPU'', ''NeonCore M3''), (''GPU'', ''RayFlux 8G''), (''Weight'', ''1.2kg'')]\<rparr>,
     \<lparr>title = ''Nebula Pro V'',
      slug = ''nebula-pro-v'',
      description = Some ''Zero compromise. Ultra light.'',
      price = 999,
      compare_at_price = Some 1199,
      category = ''hardware'',
      images =
        [''https://images.unsplash.com/photo-1555617981-dac3880d511d?q=80&w=1600&auto=format&fit=crop'',
         ''https://images.unsplash.com/photo-1517336714731-489689fd1ca8?q=80&w=1600&auto=format&fit=crop''],
      model_url = Some ''https://prod.spline.design/G8j2l6m1y7X2m6xD/scene.splinecode'',
      variants =
        [\<lparr>name = ''Finish'', options = [''Chrome'', ''Graphite'']\<rparr>,
         \<lparr>name = ''Capacity'', options = [''128GB'', ''256GB'', ''512GB'']\<rparr>],
      badges = [''Premium Support'', ''Insured Delivery''],
      rating = 4.8,
      review_count = 198,
      in_stock = True,
      specs = [(''CPU'', ''IonDrive X''), (''Display'', ''120Hz OLED''), (''Weight'', ''0.98kg'')]\<rparr>]"

text \<open>\<^verbatim>\<open>for p in demo: create_document(product_collection(), p)\<close>; an exception of
  \<^verbatim>\<open>create_document\<close> ends the loop.\<close>

fun create_all :: "db_handle \<Rightarrow> Product list \<Rightarrow> error + db_handle" where
  "create_all db [] = Inr db"
| "create_all db (p # ps) =
     (case create_document db product_collection p of
        Inl e \<Rightarrow> Inl e
      | Inr (new_id, db') \<Rightarrow> create_all db' ps)"

definition already_present :: response where
  "already_present = [(''status'', ''ok''), (''message'', ''Products already present'')]"

definition seeded :: response where
  "seeded = [(''status'', ''ok''), (''message'', ''Seeded demo products'')]"

text \<open>\<^verbatim>\<open>count = db[product_collection()].count_documents({}) if db else 0\<close>: a live
  handle is taken to be true.\<close>

definition seed_demo_products :: "db_handle \<Rightarrow> error + (response \<times> db_handle)" where
  "seed_demo_products db =
     (let count = (case db of
                     Some d \<Rightarrow> count_documents (colls d product_collection) []
                   | None \<Rightarrow> 0)
      in if count > 0 then Inr (already_present, db)
         else (case create_all db demo of
                 Inl e \<Rightarrow> Inl e
               | Inr db' \<Rightarrow> Inr (seeded, db')))"

section \<open>Validation of a request body\<close>

text \<open>
  A model of \<^verbatim>\<open>schemas.py\<close> is validated by the library the models derive from. How the
  library reads a value as text, as a number or as a truth value is a parameter here
  (a numeric string may or may not count as a number), so that what is proved holds
  for every such reading; \<open>strict\<close> is the reading in which a value counts as what
  its JSON type says, an integer also as a float.
\<close>

record coercions =
  to_str :: "pyval \<Rightarrow> string option"
  to_float :: "pyval \<Rightarrow> real option"
  to_int :: "pyval \<Rightarrow> int option"
  to_bool :: "pyval \<Rightarrow> bool option"

definition strict :: coercions where
  "strict =
     \<lparr>to_str = (\<lambda>v. case v of VStr s \<Rightarrow> Some s | _ \<Rightarrow> None),
      to_float = (\<lambda>v. case v of VFloat x \<Rightarrow> Some x | VInt i \<Rightarrow> Some (of_int i) | _ \<Rightarrow> None),
      to_int = (\<lambda>v. case v of VInt i \<Rightarrow> Some i | _ \<Rightarrow> None),
      to_bool = (\<lambda>v. case v of VBool b \<Rightarrow> Some b | _ \<Rightarrow> None)\<rparr>"

text \<open>
  A validator returns the value read, or the list of all errors found. \<open>ap\<close> combines
  two results and keeps the errors of both, so validation does not stop at the first
  field in error; \<open>at_loc\<close> puts a field name or an index in front of the locations.
\<close>

type_synonym 'a validated = "error_detail list + 'a"

fun ap :: "('a \<Rightarrow> 'b) validated \<Rightarrow> 'a validated \<Rightarrow> 'b validated" where
  "ap (Inr f) (Inr x) = Inr (f x)"
| "ap (Inr f) (Inl es) = Inl es"
| "ap (Inl es) (Inr x) = Inl es"
| "ap (Inl es) (Inl es') = Inl (es @ es')"

definition at_loc :: "loc_item \<Rightarrow> 'a validated \<Rightarrow> 'a validated" where
  "at_loc i r = (case r of Inl es \<Rightarrow> Inl (map (\<lambda>(l, k). (i # l, k)) es) | Inr x \<Rightarrow> Inr x)"

text \<open>
  The bounds \<^verbatim>\<open>ge\<close> and \<^verbatim>\<open>le\<close> of a \<^verbatim>\<open>Field\<close>, checked in this order.
\<close>

definition out_of_bounds :: "real option \<Rightarrow> real option \<Rightarrow> real \<Rightarrow> err_kind option" where
  "out_of_bounds ge le x =
     (case ge of
        Some b \<Rightarrow> if b \<le> x then (case le of Some c \<Rightarrow> if x \<le> c then None else Some (Less_than_equal c)
                                            | None \<Rightarrow> None)
                  else Some (Greater_than_equal b)
      | None \<Rightarrow> (case le of Some c \<Rightarrow> if x \<le> c then None else Some (Less_than_equal c)
                           | None \<Rightarrow> None))"

definition str_validator :: "coercions \<Rightarrow> pyval \<Rightarrow> string validated" where
  "str_validator C v = (case to_str C v of None \<Rightarrow> Inl [([], String_type)] | Some s \<Rightarrow> Inr s)"

definition float_validator ::
    "coercions \<Rightarrow> real option \<Rightarrow> real option \<Rightarrow> pyval \<Rightarrow> real validated" where
  "float_validator C ge le v =
     (case to_float C v of
        None \<Rightarrow> Inl [([], Float_type)]
      | Some x \<Rightarrow> (case out_of_bounds ge le x of Some k \<Rightarrow> Inl [([], k)] | None \<Rightarrow> Inr x))"

definition int_validator ::
    "coercions \<Rightarrow> real option \<Rightarrow> real option \<Rightarrow> pyval \<Rightarrow> int validated" where
  "int_validator C ge le v =
     (case to_int C v of
        None \<Rightarrow> Inl [([], Int_type)]
      | Some n \<Rightarrow> (case out_of_bounds ge le (of_int n) of Some k \<Rightarrow> Inl [([], k)] | None \<Rightarrow> Inr n))"

definition bool_validator :: "coercions \<Rightarrow> pyval \<Rightarrow> bool validated" where
  "bool_validator C v = (case to_bool C v of None \<Rightarrow> Inl [([], Bool_type)] | Some b \<Rightarrow> Inr b)"

definition nullable :: "(pyval \<Rightarrow> 'a validated) \<Rightarrow> pyval \<Rightarrow> 'a option validated" where
  "nullable V v = (if v = VNone then Inr None else ap (Inr Some) (V v))"

fun list_items :: "(pyval \<Rightarrow> 'a validated) \<Rightarrow> nat \<Rightarrow> pyval list \<Rightarrow> 'a list validated" where
  "list_items V i [] = Inr []"
| "list_items V i (v # vs) =
     ap (ap (Inr (#)) (at_loc (Idx i) (V v))) (list_items V (Suc i) vs)"

definition list_validator :: "(pyval \<Rightarrow> 'a validated) \<Rightarrow> pyval \<Rightarrow> 'a list validated" where
  "list_validator V v = (case v of VList vs \<Rightarrow> list_items V 0 vs | _ \<Rightarrow> Inl [([], List_type)])"

fun dict_items ::
    "(pyval \<Rightarrow> 'a validated) \<Rightarrow> (string \<times> pyval) list \<Rightarrow> (string \<times> 'a) list validated" where
  "dict_items V [] = Inr []"
| "dict_items V ((k, v) # kvs) =
     ap (ap (Inr (\<lambda>x xs. (k, x) # xs)) (at_loc (Name k) (V v))) (dict_items V kvs)"

definition dict_validator ::
    "(pyval \<Rightarrow> 'a validated) \<Rightarrow> pyval \<Rightarrow> (string \<times> 'a) list validated" where
  "dict_validator V v = (case v of VDict kvs \<Rightarrow> dict_items V kvs | _ \<Rightarrow> Inl [([], Dict_type)])"

text \<open>
  \<^verbatim>\<open>Field(...)\<close> declares a field that must be given, \<^verbatim>\<open>Field(default)\<close> and
  \<^verbatim>\<open>Field(default_factory=...)\<close> one that takes a default when absent; keys that
  are not declared are ignored.
\<close>

definition required ::
    "(string \<rightharpoonup> pyval) \<Rightarrow> string \<Rightarrow> (pyval \<Rightarrow> 'a validated) \<Rightarrow> 'a validated" where
  "required obj k V =
     (case obj k of None \<Rightarrow> Inl [([Name k], Missing)] | Some v \<Rightarrow> at_loc (Name k) (V v))"

definition with_default ::
    "(string \<rightharpoonup> pyval) \<Rightarrow> string \<Rightarrow> 'a \<Rightarrow> (pyval \<Rightarrow> 'a validated) \<Rightarrow> 'a validated" where
  "with_default obj k dflt V =
     (case obj k of None \<Rightarrow> Inr dflt | Some v \<Rightarrow> at_loc (Name k) (V v))"

definition validate_Variant :: "coercions \<Rightarrow> pyval \<Rightarrow> Variant validated" where
  "validate_Variant C v =
     (case v of
        VDict kvs \<Rightarrow>
          ap (ap (Inr (\<lambda>n os. \<lparr>name = n, options = os\<rparr>))
            (required (map_of kvs) ''name'' (str_validator C)))
            (with_default (map_of kvs) ''options'' [] (list_validator (str_validator C)))
      | _ \<Rightarrow> Inl [([], Model_type)])"

definition make_Product ::
    "string \<Rightarrow> string \<Rightarrow> string option \<Rightarrow> real \<Rightarrow> real option \<Rightarrow> string \<Rightarrow> string list \<Rightarrow>
     string option \<Rightarrow> Variant list \<Rightarrow> string list \<Rightarrow> real \<Rightarrow> int \<Rightarrow> bool \<Rightarrow>
     (string \<times> string) list \<Rightarrow> Product" where
  "make_Product t s d p c cat im mu vs bs r rc st sp =
     \<lparr>title = t, slug = s, description = d, price = p, compare_at_price = c, category = cat,
      images = im, model_url = mu, variants = vs, badges = bs, rating = r, review_count = rc,
      in_stock = st, specs = sp\<rparr>"

text \<open>
  The fields of \<^verbatim>\<open>Product\<close> with their types, defaults and bounds, \<^verbatim>\<open>schemas.py\<close>
  lines 37-50.
\<close>

definition validate_Product :: "coercions \<Rightarrow> (string \<times> pyval) list \<Rightarrow> Product validated" where
  "validate_Product C kvs =
     (let obj = map_of kvs in
      ap (ap (ap (ap (ap (ap (ap (ap (ap (ap (ap (ap (ap (ap (Inr make_Product)
        (required obj ''title'' (str_validator C)))
        (required obj ''slug'' (str_validator C)))
        (with_default obj ''description'' None (nullable (str_validator C))))
        (required obj ''price'' (float_validator C (Some 0) None)))
        (with_default obj ''compare_at_price'' None (nullable (float_validator C (Some 0) None))))
        (required obj ''category'' (str_validator C)))
        (with_default obj ''images'' [] (list_validator (str_validator C))))
        (with_default obj ''model_url'' None (nullable (str_validator C))))
        (with_default obj ''variants'' [] (list_validator (validate_Variant C))))
        (with_default obj ''badges'' [] (list_validator (str_validator C))))
        (with_default obj ''rating'' 5.0 (float_validator C (Some 0) (Some 5))))
        (with_default obj ''review_count'' 0 (int_validator C (Some 0) None)))
        (with_default obj ''in_stock'' True (bool_validator C)))
        (with_default obj ''specs'' [] (dict_validator (str_validator C))))"

text \<open>
  The route \<^verbatim>\<open>POST /api/products\<close>: the handler's parameter is declared as
  \<^verbatim>\<open>payload: ProductCreate\<close>, so the body is validated into a model instance before the
  body of \<^verbatim>\<open>create_product\<close> runs, and a body that fails is answered with its errors.
\<close>

definition post_api_products ::
    "coercions \<Rightarrow> db_handle \<Rightarrow> (string \<times> pyval) list \<Rightarrow> error + (response \<times> db_handle)" where
  "post_api_products C db body =
     (case validate_Product C body of
        Inl errs \<Rightarrow> Inl (RequestValidationError errs)
      | Inr payload \<Rightarrow> create_product db payload)"

text \<open>
  What an error list says: \<open>names errs f\<close> when some error is located at field \<open>f\<close>.
\<close>

definition errors_of :: "'a validated \<Rightarrow> error_detail list" where
  "errors_of r = (case r of Inl es \<Rightarrow> es | Inr x \<Rightarrow> [])"

definition names :: "error_detail list \<Rightarrow> string \<Rightarrow> bool" where
  "names errs f = list_ex (\<lambda>(l, k). case l of Name g # l' \<Rightarrow> g = f | _ \<Rightarrow> False) errs"

text \<open>
  The declared constraints, stated on their own for comparison with the validator:
  for each declared field, the condition its entry in the raw record (absent, or
  some value) has to meet. \<open>violated\<close> says that the field \<open>f\<close> does not meet its
  condition.
\<close>

definition is_str :: "coercions \<Rightarrow> pyval \<Rightarrow> bool" where
  "is_str C v = (to_str C v \<noteq> None)"

definition in_bounds :: "real option \<Rightarrow> real option \<Rightarrow> real \<Rightarrow> bool" where
  "in_bounds ge le x =
     ((case ge of None \<Rightarrow> True | Some b \<Rightarrow> b \<le> x) \<and> (case le of None \<Rightarrow> True | Some c \<Rightarrow> x \<le> c))"

definition is_float :: "coercions \<Rightarrow> real option \<Rightarrow> real option \<Rightarrow> pyval \<Rightarrow> bool" where
  "is_float C ge le v = (case to_float C v of None \<Rightarrow> False | Some x \<Rightarrow> in_bounds ge le x)"

definition is_int :: "coercions \<Rightarrow> real option \<Rightarrow> real option \<Rightarrow> pyval \<Rightarrow> bool" where
  "is_int C ge le v = (case to_int C v of None \<Rightarrow> False | Some n \<Rightarrow> in_bounds ge le (of_int n))"

definition is_bool :: "coercions \<Rightarrow> pyval \<Rightarrow> bool" where
  "is_bool C v = (to_bool C v \<noteq> None)"

definition or_null :: "(pyval \<Rightarrow> bool) \<Rightarrow> pyval \<Rightarrow> bool" where
  "or_null P v = (v = VNone \<or> P v)"

definition list_of :: "(pyval \<Rightarrow> bool) \<Rightarrow> pyval \<Rightarrow> bool" where
  "list_of P v = (case v of VList vs \<Rightarrow> list_all P vs | _ \<Rightarrow> False)"

definition dict_of :: "(pyval \<Rightarrow> bool) \<Rightarrow> pyval \<Rightarrow> bool" where
  "dict_of P v = (case v of VDict kvs \<Rightarrow> list_all (\<lambda>(k, x). P x) kvs | _ \<Rightarrow> False)"

definition given :: "(pyval \<Rightarrow> bool) \<Rightarrow> pyval option \<Rightarrow> bool" where
  "given P e = (case e of None \<Rightarrow> False | Some v \<Rightarrow> P v)"

definition if_given :: "(pyval \<Rightarrow> bool) \<Rightarrow> pyval option \<Rightarrow> bool" where
  "if_given P e = (case e of None \<Rightarrow> True | Some v \<Rightarrow> P v)"

definition is_Variant :: "coercions \<Rightarrow> pyval \<Rightarrow> bool" where
  "is_Variant C v =
     (case v of
        VDict kvs \<Rightarrow> given (is_str C) (map_of kvs ''name'') \<and>
                     if_given (list_of (is_str C)) (map_of kvs ''options'')
      | _ \<Rightarrow> False)"

definition Product_constraints :: "coercions \<Rightarrow> (string \<times> (pyval option \<Rightarrow> bool)) list" where
  "Product_constraints C =
     [(''title'', given (is_str C)),
      (''slug'', given (is_str C)),
      (''description'', if_given (or_null (is_str C))),
      (''price'', given (is_float C (Some 0) None)),
      (''compare_at_price'', if_given (or_null (is_float C (Some 0) None))),
      (''category'', given (is_str C)),
      (''images'', if_given (list_of (is_str C))),
      (''model_url'', if_given (or_null (is_str C))),
      (''variants'', if_given (list_of (is_Variant C))),
      (''badges'', if_given (list_of (is_str C))),
      (''rating'', if_given (is_float C (Some 0) (Some 5))),
      (''review_count'', if_given (is_int C (Some 0) None)),
      (''in_stock'', if_given (is_bool C)),
      (''specs'', if_given (dict_of (is_str C)))]"

definition violated :: "coercions \<Rightarrow> (string \<rightharpoonup> pyval) \<Rightarrow> string \<Rightarrow> bool" where
  "violated C obj f = list_ex (\<lambda>(n, ok). n = f \<and> \<not> ok (obj n)) (Product_constraints C)"

text \<open>
  Request bodies: one with a negative price, a rating of 7, a negative review count
  and an image that is not text; one whose texts are empty; a compliant one; one
  without a title and with a number as category.
\<close>

definition body_bad :: "(string \<times> pyval) list" where
  "body_bad = [(''title'', VStr ''A''), (''slug'', VStr ''a''), (''price'', VInt (- 1)),
               (''category'', VStr ''c''), (''rating'', VInt 7), (''review_count'', VInt (- 2)),
               (''images'', VList [VStr ''u'', VInt 3])]"

definition body_min :: "(string \<times> pyval) list" where
  "body_min = [(''title'', VStr ''''), (''slug'', VStr ''''), (''price'', VInt 1),
               (''category'', VStr '''')]"

text \<open>
  Two notions for the proofs: a result is \<open>good\<close> when it is an error exactly when
  it lists some error, and a validator \<open>decides\<close> a condition when it is good and
  fails exactly on the values that do not meet the condition.
\<close>

definition good :: "'a validated \<Rightarrow> bool" where
  "good r = (isl r = (errors_of r \<noteq> []))"

definition decides :: "(pyval \<Rightarrow> 'a validated) \<Rightarrow> (pyval \<Rightarrow> bool) \<Rightarrow> bool" where
  "decides V P = (\<forall>v. good (V v) \<and> isl (V v) = (\<not> P v))"


text \<open>
  The schema description. The declarations of \<^verbatim>\<open>Product\<close> as a table (name, annotation,
  \<^verbatim>\<open>Field\<close> with default, \<^verbatim>\<open>ge\<close>, \<^verbatim>\<open>le\<close> and description); \<^verbatim>\<open>model_json_schema\<close> lists one
  property per declared field and the names of the required ones, and \<^verbatim>\<open>get_schema\<close>
  returns it under \<^verbatim>\<open>models.product\<close>.
\<close>

datatype annotation =
    T_str
  | T_float
  | T_int
  | T_bool
  | T_Optional annotation
  | T_List annotation
  | T_Dict annotation annotation
  | T_Variant

datatype default_value = Required | Default pyval | Default_factory pyval

datatype field_info = Field default_value "real option" "real option" string

definition Product_model_fields :: "(string \<times> annotation \<times> field_info) list" where
  "Product_model_fields =
     [(''title'', T_str, Field Required None None ''Product title''),
      (''slug'', T_str, Field Required None None ''URL-friendly identifier''),
      (''description'', T_Optional T_str, Field (Default VNone) None None ''Product description''),
      (''price'', T_float, Field Required (Some 0) None ''Price in dollars''),
      (''compare_at_price'', T_Optional T_float,
         Field (Default VNone) (Some 0) None ''Original price for comparison''),
      (''category'', T_str, Field Required None None ''Product category''),
      (''images'', T_List T_str, Field (Default_factory (VList [])) None None ''Image URLs''),
      (''model_url'', T_Optional T_str,
         Field (Default VNone) None None ''3D model or Spline scene URL''),
      (''variants'', T_List T_Variant,
         Field (Default_factory (VList [])) None None ''Variant groups''),
      (''badges'', T_List T_str,
         Field (Default_factory (VList [])) None None ''Trust or feature badges''),
      (''rating'', T_float, Field (Default (VFloat 5.0)) (Some 0) (Some 5) ''Average rating''),
      (''review_count'', T_int, Field (Default (VInt 0)) (Some 0) None ''Number of reviews''),
      (''in_stock'', T_bool, Field (Default (VBool True)) None None ''Whether product is in stock''),
      (''specs'', T_Dict T_str T_str,
         Field (Default_factory (VDict [])) None None ''Key-value specs'')]"

record json_schema =
  schema_title :: string
  schema_type :: string
  properties :: "(string \<times> annotation \<times> field_info) list"
  required_names :: "string list"

fun is_required :: "string \<times> annotation \<times> field_info \<Rightarrow> bool" where
  "is_required (n, a, Field Required ge le d) = True"
| "is_required (n, a, Field dflt ge le d) = False"

definition model_json_schema ::
    "string \<Rightarrow> (string \<times> annotation \<times> field_info) list \<Rightarrow> json_schema" where
  "model_json_schema nm flds =
     \<lparr>schema_title = nm, schema_type = ''object'', properties = flds,
      required_names = map fst (filter is_required flds)\<rparr>"

definition get_schema :: "(string \<times> (string \<times> json_schema) list) list" where
  "get_schema = [(''models'', [(''product'', model_json_schema ''Product'' Product_model_fields)])]"

definition body_ok :: "(string \<times> pyval) list" where
  "body_ok = [(''title'', VStr ''A''), (''slug'', VStr ''a''), (''price'', VFloat 2.5),
              (''category'', VStr ''c''), (''rating'', VInt 4), (''review_count'', VInt 0),
              (''images'', VList [VStr ''u'']), (''compare_at_price'', VNone)]"

definition body_untitled :: "(string \<times> pyval) list" where
  "body_untitled = [(''slug'', VStr ''b''), (''price'', VInt 1), (''category'', VInt 3)]"

section \<open>Concrete stores\<close>

text \<open>A store whose collection of products holds one document, with slug \<open>a\<close>.\<close>

definition store1 :: database where
  "store1 =
     \<lparr>colls = (\<lambda>c. if c = ''product''
                 then [\<lparr>oid = Some 7, entries = [''slug'' \<mapsto> VStr ''a'', ''price'' \<mapsto> VFloat 3]\<rparr>]
                 else []),
      next_oid = 8\<rparr>"

text \<open>A store with no document at all.\<close>

definition store0 :: database where
  "store0 = \<lparr>colls = (\<lambda>c. []), next_oid = 0\<rparr>"

text \<open>The two documents that seeding writes when the store assigns identifiers
  from \<open>i\<close> on.\<close>

definition seeded_docs :: "objectid \<Rightarrow> document list" where
  "seeded_docs i =
     [\<lparr>oid = Some i, entries = model_dump (demo ! 0)\<rparr>,
      \<lparr>oid = Some (i + 1), entries = model_dump (demo ! 1)\<rparr>]"

section \<open>Facts about the store\<close>

lemma length_hex_digits: "length (hex_digits k n) = k"
  by (induction k arbitrary: n) auto

lemma str_ObjectId_nonempty: "str_ObjectId i \<noteq> []"
proof -
  have "length (str_ObjectId i) = 24"
    by (simp add: str_ObjectId_def length_hex_digits)
  then show ?thesis by auto
qed

lemma find_one_None:
  "(find_one docs flt = None) = (\<forall>doc \<in> set docs. \<not> matches doc flt)"
  by (auto simp: find_one_def find_None_iff)

lemma find_one_Some:
  "find_one docs flt = Some doc \<Longrightarrow> doc \<in> set docs \<and> matches doc flt"
  by (auto simp: find_one_def find_Some_iff)

lemma find_one_append_new:
  assumes "\<forall>doc \<in> set docs. \<not> matches doc flt" and "matches new flt"
  shows "find_one (docs @ [new]) flt = Some new"
  using assms by (induction docs) (auto simp: find_one_def)

lemma matches_slug_truthy:
  "matches doc [(''slug'', s)] \<Longrightarrow> truthy doc"
  by (auto simp: matches_def truthy_def)

lemma matches_dump_slug:
  "matches \<lparr>oid = i, entries = model_dump p\<rparr> [(''slug'', slug p)]"
  by (simp add: matches_def model_dump_def)

lemma count_all: "count_documents docs [] = length docs"
  by (simp add: count_documents_def matches_def)

lemma create_document_live:
  "create_document (Some d) c p =
     Inr (str_ObjectId (next_oid d),
          Some (d\<lparr>colls := (colls d)(c := colls d c @ [\<lparr>oid = Some (next_oid d), entries = model_dump p\<rparr>]),
                  next_oid := next_oid d + 1\<rparr>))"
  by (simp add: create_document_def Let_def)

section \<open>Lookup by slug\<close>

text \<open>
  C8. With a live handle, a slug that no document of the collection matches makes
  \<open>get_product\<close> fail with the 404 exception "Product not found", and with nothing
  else.
\<close>

theorem get_product_not_found:
  assumes "\<forall>doc \<in> set (colls d product_collection). \<not> matches doc [(''slug'', s)]"
  shows "get_product (Some d) s = Inl NotFound"
proof -
  have "find_one (colls d product_collection) [(''slug'', s)] = None"
    using assms by (simp add: find_one_None)
  then show ?thesis
    by (simp add: get_product_def NotFound_def)
qed

theorem get_product_not_found_witness:
  "get_product (Some store1) ''b'' = Inl (HTTPException 404 ''Product not found'')"
  using get_product_not_found [of store1 "''b''"]
  by (simp add: store1_def product_collection_def matches_def NotFound_def)

section \<open>Identifiers in returned records\<close>

lemma rename_id_oid: "oid (rename_id d) = None"
  by (simp add: rename_id_def split: option.splits)

text \<open>
  C7. When every stored document carries its store-assigned identifier, every record
  that \<open>list_products\<close> or \<open>get_product\<close> returns has no \<^verbatim>\<open>_id\<close> entry, and is the
  stored document with that identifier added as the text entry \<^verbatim>\<open>id\<close>.
\<close>

theorem id_exposed:
  assumes "\<forall>doc \<in> set (colls d product_collection). oid doc \<noteq> None"
  shows "(\<forall>rs. list_products (Some d) limit = Inr rs \<longrightarrow>
           (\<forall>r \<in> set rs. oid r = None \<and>
              (\<exists>doc \<in> set (colls d product_collection). \<exists>i. oid doc = Some i \<and>
                 entries r = (entries doc)(''id'' \<mapsto> VStr (str_ObjectId i))))) \<and>
         (\<forall>r. get_product (Some d) s = Inr r \<longrightarrow>
           oid r = None \<and>
           (\<exists>doc \<in> set (colls d product_collection). \<exists>i. oid doc = Some i \<and>
              entries r = (entries doc)(''id'' \<mapsto> VStr (str_ObjectId i))))"
proof (intro conjI allI impI ballI)
  fix rs r
  assume rs: "list_products (Some d) limit = Inr rs" and r: "r \<in> set rs"
  from rs obtain docs where docs: "get_documents (Some d) product_collection [] limit = Inr docs"
    and rs_eq: "rs = map rename_id docs"
    by (auto simp: list_products_def split: sum.splits)
  from docs have sub: "set docs \<subseteq> set (colls d product_collection)"
    by (auto simp: get_documents_def Let_def dest: in_set_takeD)
  from r rs_eq obtain doc where doc: "doc \<in> set docs" and r_eq: "r = rename_id doc"
    by auto
  from doc sub assms obtain i where i: "oid doc = Some i"
    by blast
  show "oid r = None"
    by (simp add: r_eq rename_id_oid)
  show "\<exists>doc \<in> set (colls d product_collection). \<exists>i. oid doc = Some i \<and>
          entries r = (entries doc)(''id'' \<mapsto> VStr (str_ObjectId i))"
    using doc sub i r_eq by (intro bexI [of _ doc]) (auto simp: rename_id_def)
next
  fix r
  assume g: "get_product (Some d) s = Inr r"
  then obtain doc i where f: "find_one (colls d product_collection) [(''slug'', s)] = Some doc"
    and i: "oid doc = Some i"
    and r_eq: "r = doc\<lparr>oid := None, entries := (entries doc)(''id'' \<mapsto> VStr (str_ObjectId i))\<rparr>"
    by (auto simp: get_product_def split: option.splits if_splits)
  show "oid r = None"
    by (simp add: r_eq)
  show "\<exists>doc \<in> set (colls d product_collection). \<exists>i. oid doc = Some i \<and>
          entries r = (entries doc)(''id'' \<mapsto> VStr (str_ObjectId i))"
    using find_one_Some [OF f] i r_eq by (intro bexI [of _ doc]) auto
qed

theorem id_exposed_witness:
  "list_products (Some store1) (Some 20) =
     Inr [\<lparr>oid = None, entries = [''slug'' \<mapsto> VStr ''a'', ''price'' \<mapsto> VFloat 3,
                                   ''id'' \<mapsto> VStr (str_ObjectId 7)]\<rparr>] \<and>
   get_product (Some store1) ''a'' =
     Inr \<lparr>oid = None, entries = [''slug'' \<mapsto> VStr ''a'', ''price'' \<mapsto> VFloat 3,
                                  ''id'' \<mapsto> VStr (str_ObjectId 7)]\<rparr> \<and>
   list_all (\<lambda>doc. oid doc \<noteq> None) (colls store1 product_collection)"
  using id_exposed [of store1 "Some 20" "''a''"]
  by (simp add: store1_def product_collection_def list_products_def get_documents_def
      get_product_def find_one_def matches_def rename_id_def truthy_def)

section \<open>Seeding, creating and listing\<close>

lemma create_all_demo:
  assumes "colls d product_collection = []"
  shows "create_all (Some d) demo =
     Inr (Some (d\<lparr>colls := (colls d)(product_collection := seeded_docs (next_oid d)),
                   next_oid := next_oid d + 2\<rparr>))"
proof -
  have two: "demo = [demo ! 0, demo ! 1]"
    by (simp add: demo_def)
  have "create_all (Some d) [demo ! 0, demo ! 1] =
     Inr (Some (d\<lparr>colls := (colls d)(product_collection := seeded_docs (next_oid d)),
                   next_oid := next_oid d + 2\<rparr>))"
    using assms by (simp add: create_document_live seeded_docs_def add.assoc)
  with two show ?thesis by metis
qed

lemma demo_slugs: "map slug demo = [''specter-series-x1'', ''nebula-pro-v'']"
  by (simp add: demo_def)

lemma seed_empty:
  assumes "colls d product_collection = []"
  shows "seed_demo_products (Some d) =
     Inr (seeded, Some (d\<lparr>colls := (colls d)(product_collection := seeded_docs (next_oid d)),
                           next_oid := next_oid d + 2\<rparr>))"
  using assms by (simp add: seed_demo_products_def count_all create_all_demo)




text \<open>
  C10. Without a handle the count is taken to be 0 and seeding goes on to insert,
  where \<open>create_document\<close> fails for want of a connection; the answer "Products
  already present" is returned only for a live handle whose collection counts more
  than zero documents, and then the store is unchanged.
\<close>

theorem seed_without_handle:
  "seed_demo_products None = Inl StorageUnavailable \<and>
   (\<forall>db'. seed_demo_products db = Inr (already_present, db') \<longrightarrow>
      (\<exists>d. db = Some d \<and> 0 < count_documents (colls d product_collection) [] \<and> db' = db))"
proof (intro conjI allI impI)
  show "seed_demo_products None = Inl StorageUnavailable"
    by (simp add: seed_demo_products_def demo_def create_document_def)
next
  fix db'
  assume a: "seed_demo_products db = Inr (already_present, db')"
  have ne: "seeded \<noteq> already_present"
    by (simp add: seeded_def already_present_def)
  show "\<exists>d. db = Some d \<and> 0 < count_documents (colls d product_collection) [] \<and> db' = db"
  proof (cases db)
    case None
    with a show ?thesis
      by (simp add: seed_demo_products_def demo_def create_document_def)
  next
    case (Some d)
    with a ne show ?thesis
      by (auto simp: seed_demo_products_def Let_def split: if_splits sum.splits)
  qed
qed

theorem seed_without_handle_witness:
  "seed_demo_products None = Inl StorageUnavailable \<and>
   seed_demo_products (Some store1) = Inr (already_present, Some store1) \<and>
   0 < count_documents (colls store1 product_collection) []"
proof -
  have "seed_demo_products (Some store1) = Inr (already_present, Some store1)"
    by (simp add: seed_demo_products_def store1_def product_collection_def count_all)
  with seed_without_handle [of "Some store1"] show ?thesis
    by blast
qed

lemma create_product_live:
  assumes "\<forall>doc \<in> set (colls d product_collection). \<not> matches doc [(''slug'', slug p)]"
  shows "create_product (Some d) p =
     Inr ([(''id'', str_ObjectId (next_oid d))],
          Some (d\<lparr>colls := (colls d)(product_collection := colls d product_collection @
                              [\<lparr>oid = Some (next_oid d), entries = model_dump p\<rparr>]),
                  next_oid := next_oid d + 1\<rparr>))"
proof -
  have "find_one (colls d product_collection) [(''slug'', slug p)] = None"
    using assms by (simp add: find_one_None)
  then show ?thesis
    by (simp add: create_product_def create_document_live)
qed

lemma create_product_duplicate:
  assumes "doc \<in> set (colls d product_collection)" and "matches doc [(''slug'', slug p)]"
  shows "create_product (Some d) p = Inl DuplicateSlug"
proof -
  from assms have "find_one (colls d product_collection) [(''slug'', slug p)] \<noteq> None"
    by (auto simp: find_one_None)
  then obtain doc' where f: "find_one (colls d product_collection) [(''slug'', slug p)] = Some doc'"
    by auto
  from find_one_Some [OF f] have "truthy doc'"
    by (blast intro: matches_slug_truthy)
  with f show ?thesis
    by (simp add: create_product_def DuplicateSlug_def)
qed

lemma get_product_after_create:
  assumes "\<forall>doc \<in> set docs. \<not> matches doc [(''slug'', slug p)]"
    and "colls d product_collection = docs @ [\<lparr>oid = Some i, entries = model_dump p\<rparr>]"
  shows "get_product (Some d) (slug p) =
     Inr \<lparr>oid = None, entries = (model_dump p)(''id'' \<mapsto> VStr (str_ObjectId i))\<rparr>"
proof -
  let ?new = "\<lparr>oid = Some i, entries = model_dump p\<rparr>"
  have "find_one (docs @ [?new]) [(''slug'', slug p)] = Some ?new"
    using assms(1) matches_dump_slug by (rule find_one_append_new)
  then show ?thesis
    using assms(2) by (simp add: get_product_def truthy_def)
qed

text \<open>
  C2. With a live handle and no document matching the payload's slug, \<open>create_product\<close>
  succeeds and returns the new identifier as text; \<open>get_product\<close> with that slug then
  returns the payload's entries plus the entry \<^verbatim>\<open>id\<close>, a non-empty text.
\<close>

theorem create_then_get:
  assumes "\<forall>doc \<in> set (colls d product_collection). \<not> matches doc [(''slug'', slug p)]"
  shows "\<exists>d'. create_product (Some d) p = Inr ([(''id'', str_ObjectId (next_oid d))], Some d') \<and>
           get_product (Some d') (slug p) =
             Inr \<lparr>oid = None,
                  entries = (model_dump p)(''id'' \<mapsto> VStr (str_ObjectId (next_oid d)))\<rparr> \<and>
           str_ObjectId (next_oid d) \<noteq> []"
proof -
  let ?d' = "d\<lparr>colls := (colls d)(product_collection := colls d product_collection @
                              [\<lparr>oid = Some (next_oid d), entries = model_dump p\<rparr>]),
               next_oid := next_oid d + 1\<rparr>"
  have 1: "create_product (Some d) p = Inr ([(''id'', str_ObjectId (next_oid d))], Some ?d')"
    by (rule create_product_live [OF assms])
  have 2: "get_product (Some ?d') (slug p) =
             Inr \<lparr>oid = None,
                  entries = (model_dump p)(''id'' \<mapsto> VStr (str_ObjectId (next_oid d)))\<rparr>"
    by (rule get_product_after_create [OF assms]) simp
  from 1 2 str_ObjectId_nonempty show ?thesis
    by blast
qed

theorem create_then_get_witness:
  "list_all (\<lambda>doc. \<not> matches doc [(''slug'', ''nebula-pro-v'')])
     (colls store1 product_collection) \<and>
   (\<exists>d'. create_product (Some store1) (demo ! 1) = Inr ([(''id'', str_ObjectId 8)], Some d') \<and>
         get_product (Some d') ''nebula-pro-v'' =
           Inr \<lparr>oid = None, entries = (model_dump (demo ! 1))(''id'' \<mapsto> VStr (str_ObjectId 8))\<rparr>)"
proof -
  have h: "\<forall>doc \<in> set (colls store1 product_collection). \<not> matches doc [(''slug'', slug (demo ! 1))]"
    by (simp add: store1_def product_collection_def matches_def demo_def)
  have s: "slug (demo ! 1) = ''nebula-pro-v''" by (simp add: demo_def)
  have n: "next_oid store1 = 8" by (simp add: store1_def)
  show ?thesis
    using h create_then_get [OF h] unfolding s n list_all_iff by blast
qed

lemma list_products_length:
  assumes "list_products db limit = Inr rs"
  shows "int (length rs) \<le> max 0 (case limit of None \<Rightarrow> 20 | Some l \<Rightarrow> l)"
  using assms
  by (auto simp: list_products_def get_documents_def Let_def split: sum.splits option.splits)

text \<open>
  C6 as amended. For a positive limit \<open>list_products\<close> returns at most that many
  records; with limit 20, right after seeding an empty collection, it returns the two
  seeded records, identifiers renamed.
\<close>

theorem list_products_at_most_limit:
  "(\<forall>rs. 0 < l \<longrightarrow> list_products db (Some l) = Inr rs \<longrightarrow> int (length rs) \<le> l) \<and>
   (colls d product_collection = [] \<longrightarrow>
      (\<exists>d'. seed_demo_products (Some d) = Inr (seeded, Some d') \<and>
            list_products (Some d') (Some 20) = Inr (map rename_id (seeded_docs (next_oid d)))))"
proof (intro conjI allI impI)
  fix rs
  assume "0 < l" and "list_products db (Some l) = Inr rs"
  with list_products_length [of db "Some l" rs] show "int (length rs) \<le> l"
    by simp
next
  assume e: "colls d product_collection = []"
  let ?d' = "d\<lparr>colls := (colls d)(product_collection := seeded_docs (next_oid d)),
               next_oid := next_oid d + 2\<rparr>"
  have "list_products (Some ?d') (Some 20) = Inr (map rename_id (seeded_docs (next_oid d)))"
    by (simp add: list_products_def get_documents_def matches_def seeded_docs_def)
  with seed_empty [OF e] show "\<exists>d'. seed_demo_products (Some d) = Inr (seeded, Some d') \<and>
            list_products (Some d') (Some 20) = Inr (map rename_id (seeded_docs (next_oid d)))"
    by blast
qed

theorem list_products_at_most_limit_witness:
  "list_products (Some store1) (Some 1) =
     Inr [\<lparr>oid = None, entries = [''slug'' \<mapsto> VStr ''a'', ''price'' \<mapsto> VFloat 3,
                                   ''id'' \<mapsto> VStr (str_ObjectId 7)]\<rparr>] \<and>
   (\<exists>d'. seed_demo_products (Some store0) = Inr (seeded, Some d') \<and>
      list_products (Some d') (Some 20) =
        Inr [\<lparr>oid = None, entries = (model_dump (demo ! 0))(''id'' \<mapsto> VStr (str_ObjectId 0))\<rparr>,
             \<lparr>oid = None, entries = (model_dump (demo ! 1))(''id'' \<mapsto> VStr (str_ObjectId 1))\<rparr>])"
proof -
  have a: "colls store0 product_collection = []" by (simp add: store0_def)
  have n: "next_oid store0 = 0" by (simp add: store0_def)
  have r: "map rename_id (seeded_docs 0) =
        [\<lparr>oid = None, entries = (model_dump (demo ! 0))(''id'' \<mapsto> VStr (str_ObjectId 0))\<rparr>,
         \<lparr>oid = None, entries = (model_dump (demo ! 1))(''id'' \<mapsto> VStr (str_ObjectId 1))\<rparr>]"
    by (simp add: seeded_docs_def rename_id_def)
  have l: "list_products (Some store1) (Some 1) =
     Inr [\<lparr>oid = None, entries = [''slug'' \<mapsto> VStr ''a'', ''price'' \<mapsto> VFloat 3,
                                   ''id'' \<mapsto> VStr (str_ObjectId 7)]\<rparr>]"
    by (simp add: store1_def product_collection_def list_products_def get_documents_def
        matches_def rename_id_def)
  show ?thesis
    using a l list_products_at_most_limit [of 1 "Some store1" store0] unfolding n r by blast
qed

text \<open>
  C6 as stated fails for a negative limit: no list has fewer than zero records.
\<close>

theorem list_products_negative_limit:
  "list_products (Some store1) (Some (- 1)) = Inr [] \<and>
   \<not> int (length ([] :: document list)) \<le> - 1"
  by (simp add: list_products_def get_documents_def store1_def)

section \<open>Facts about validation\<close>

lemma isl_ap: "isl (ap f x) = (isl f \<or> isl x)"
  by (cases f; cases x) auto

lemma errors_ap: "errors_of (ap f x) = errors_of f @ errors_of x"
  by (cases f; cases x) (auto simp: errors_of_def)

lemma good_Inr: "good (Inr x)"
  by (simp add: good_def errors_of_def)

lemma good_single: "good (Inl [e])"
  by (simp add: good_def errors_of_def)

lemma good_ap: "good f \<Longrightarrow> good x \<Longrightarrow> good (ap f x)"
  by (auto simp: good_def isl_ap errors_ap)

lemma isl_at_loc: "isl (at_loc i r) = isl r"
  by (cases r) (auto simp: at_loc_def)

lemma good_at_loc: "good r \<Longrightarrow> good (at_loc i r)"
  by (cases r) (auto simp: good_def at_loc_def errors_of_def)

lemma names_append: "names (a @ b) f = (names a f \<or> names b f)"
  by (simp add: names_def)

lemma names_Nil: "names [] f = False"
  by (simp add: names_def)

lemma names_at_loc:
  assumes "good r"
  shows "names (errors_of (at_loc (Name k) r)) f = (isl r \<and> k = f)"
proof (cases r)
  case (Inl es)
  with assms have ne: "es \<noteq> []"
    by (simp add: good_def errors_of_def)
  have "list_ex (\<lambda>(l, e). case l of Name g # l' \<Rightarrow> g = f | _ \<Rightarrow> False)
               (map (\<lambda>(l, e). (Name k # l, e)) es) = (es \<noteq> [] \<and> k = f)"
    by (induction es) (auto simp: case_prod_beta)
  with Inl ne show ?thesis
    by (simp add: names_def at_loc_def errors_of_def)
next
  case (Inr x)
  then show ?thesis
    by (simp add: names_def at_loc_def errors_of_def)
qed

lemma decidesD: "decides V P \<Longrightarrow> good (V v)" "decides V P \<Longrightarrow> isl (V v) = (\<not> P v)"
  by (simp_all add: decides_def)

lemma decides_str: "decides (str_validator C) (is_str C)"
  by (auto simp: decides_def str_validator_def is_str_def good_Inr good_single
      split: option.splits)

lemma decides_bool: "decides (bool_validator C) (is_bool C)"
  by (auto simp: decides_def bool_validator_def is_bool_def good_Inr good_single
      split: option.splits)

lemma in_bounds_iff: "in_bounds ge le x = (out_of_bounds ge le x = None)"
  by (auto simp: out_of_bounds_def in_bounds_def split: option.splits)

lemma decides_float: "decides (float_validator C ge le) (is_float C ge le)"
  unfolding decides_def
proof (intro allI conjI)
  fix v
  show "good (float_validator C ge le v)"
    by (simp add: float_validator_def good_Inr good_single split: option.splits)
  show "isl (float_validator C ge le v) = (\<not> is_float C ge le v)"
    by (auto simp: float_validator_def is_float_def in_bounds_iff split: option.splits)
qed

lemma decides_int: "decides (int_validator C ge le) (is_int C ge le)"
  unfolding decides_def
proof (intro allI conjI)
  fix v
  show "good (int_validator C ge le v)"
    by (simp add: int_validator_def good_Inr good_single split: option.splits)
  show "isl (int_validator C ge le v) = (\<not> is_int C ge le v)"
    by (auto simp: int_validator_def is_int_def in_bounds_iff split: option.splits)
qed

lemma decides_nullable:
  assumes "decides V P"
  shows "decides (nullable V) (or_null P)"
  using assms
  by (auto simp: decides_def nullable_def or_null_def good_Inr isl_ap intro!: good_ap)

lemma good_list_items:
  assumes "decides V P"
  shows "good (list_items V i vs)"
  by (induction vs arbitrary: i)
     (auto simp: good_Inr intro!: good_ap good_at_loc decidesD(1) [OF assms])

lemma isl_list_items:
  assumes "decides V P"
  shows "isl (list_items V i vs) = (\<not> list_all P vs)"
  by (induction vs arbitrary: i) (auto simp: isl_ap isl_at_loc decidesD(2) [OF assms])

lemma decides_list:
  assumes "decides V P"
  shows "decides (list_validator V) (list_of P)"
  unfolding decides_def
proof (intro allI conjI)
  fix v
  show "good (list_validator V v)"
    by (cases v) (simp_all add: list_validator_def good_single good_list_items [OF assms])
  show "isl (list_validator V v) = (\<not> list_of P v)"
    by (cases v) (simp_all add: list_validator_def list_of_def isl_list_items [OF assms])
qed

lemma good_dict_items:
  assumes "decides V P"
  shows "good (dict_items V kvs)"
  by (induction kvs)
     (auto simp: good_Inr intro!: good_ap good_at_loc decidesD(1) [OF assms])

lemma isl_dict_items:
  assumes "decides V P"
  shows "isl (dict_items V kvs) = (\<not> list_all (\<lambda>(k, x). P x) kvs)"
  by (induction kvs) (auto simp: isl_ap isl_at_loc decidesD(2) [OF assms])

lemma decides_dict:
  assumes "decides V P"
  shows "decides (dict_validator V) (dict_of P)"
  unfolding decides_def
proof (intro allI conjI)
  fix v
  show "good (dict_validator V v)"
    by (cases v) (simp_all add: dict_validator_def good_single good_dict_items [OF assms])
  show "isl (dict_validator V v) = (\<not> dict_of P v)"
    by (cases v) (simp_all add: dict_validator_def dict_of_def isl_dict_items [OF assms])
qed

lemma good_required:
  assumes "decides V P"
  shows "good (required obj k V)"
  by (auto simp: required_def good_single split: option.splits
      intro!: good_at_loc decidesD(1) [OF assms])

lemma isl_required:
  assumes "decides V P"
  shows "isl (required obj k V) = (\<not> given P (obj k))"
  by (auto simp: required_def given_def isl_at_loc decidesD(2) [OF assms] split: option.splits)

lemma names_required:
  assumes "decides V P"
  shows "names (errors_of (required obj k V)) f = (k = f \<and> \<not> given P (obj k))"
proof (cases "obj k")
  case None
  then show ?thesis
    by (auto simp: required_def given_def names_def errors_of_def)
next
  case (Some v)
  then show ?thesis
    using names_at_loc [OF decidesD(1) [OF assms], of k v f]
    by (auto simp: required_def given_def decidesD(2) [OF assms])
qed

lemma good_with_default:
  assumes "decides V P"
  shows "good (with_default obj k dflt V)"
  by (auto simp: with_default_def good_Inr split: option.splits
      intro!: good_at_loc decidesD(1) [OF assms])

lemma isl_with_default:
  assumes "decides V P"
  shows "isl (with_default obj k dflt V) = (\<not> if_given P (obj k))"
  by (auto simp: with_default_def if_given_def isl_at_loc decidesD(2) [OF assms]
      split: option.splits)

lemma names_with_default:
  assumes "decides V P"
  shows "names (errors_of (with_default obj k dflt V)) f = (k = f \<and> \<not> if_given P (obj k))"
proof (cases "obj k")
  case None
  then show ?thesis
    by (auto simp: with_default_def if_given_def names_def errors_of_def)
next
  case (Some v)
  then show ?thesis
    using names_at_loc [OF decidesD(1) [OF assms], of k v f]
    by (auto simp: with_default_def if_given_def decidesD(2) [OF assms])
qed

lemma decides_Variant: "decides (validate_Variant C) (is_Variant C)"
  unfolding decides_def
proof (intro allI conjI)
  fix v
  note s = decides_str [of C]
  note l = decides_list [OF s]
  show "good (validate_Variant C v)"
    by (cases v)
       (auto simp: validate_Variant_def good_single good_Inr
          intro!: good_ap good_required [OF s] good_with_default [OF l])
  show "isl (validate_Variant C v) = (\<not> is_Variant C v)"
    by (cases v)
       (auto simp: validate_Variant_def is_Variant_def isl_ap isl_required [OF s]
          isl_with_default [OF l])
qed

lemmas field_decides =
  decides_str decides_bool decides_float decides_int
  decides_nullable [OF decides_str] decides_nullable [OF decides_float]
  decides_list [OF decides_str] decides_list [OF decides_Variant]
  decides_dict [OF decides_str]

lemma errors_Inr: "errors_of (Inr x) = []"
  by (simp add: errors_of_def)

lemma validate_Product_names:
  "names (errors_of (validate_Product C kvs)) f = violated C (map_of kvs) f"
  unfolding validate_Product_def Let_def violated_def Product_constraints_def
  by (simp add: errors_ap names_append errors_Inr names_Nil
      names_required [OF field_decides(1)] names_required [OF field_decides(3)]
      names_with_default [OF field_decides(2)] names_with_default [OF field_decides(3)]
      names_with_default [OF field_decides(4)] names_with_default [OF field_decides(5)]
      names_with_default [OF field_decides(6)] names_with_default [OF field_decides(7)]
      names_with_default [OF field_decides(8)] names_with_default [OF field_decides(9)])

lemma validate_Product_isl:
  "isl (validate_Product C kvs) = (\<exists>f. violated C (map_of kvs) f)"
  unfolding validate_Product_def Let_def violated_def Product_constraints_def
  by (simp add: isl_ap
      isl_required [OF field_decides(1)] isl_required [OF field_decides(3)]
      isl_with_default [OF field_decides(2)] isl_with_default [OF field_decides(3)]
      isl_with_default [OF field_decides(4)] isl_with_default [OF field_decides(5)]
      isl_with_default [OF field_decides(6)] isl_with_default [OF field_decides(7)]
      isl_with_default [OF field_decides(8)] isl_with_default [OF field_decides(9)]
      ex_disj_distrib) blast



lemma validate_body_bad:
  "validate_Product strict body_bad =
     Inl [([Name ''price''], Greater_than_equal 0),
          ([Name ''images'', Idx 1], String_type),
          ([Name ''rating''], Less_than_equal 5),
          ([Name ''review_count''], Greater_than_equal 0)]"
  by (simp add: validate_Product_def body_bad_def strict_def required_def with_default_def
      str_validator_def float_validator_def int_validator_def bool_validator_def
      list_validator_def dict_validator_def nullable_def at_loc_def out_of_bounds_def)

lemma validate_body_ok:
  "validate_Product strict body_ok =
     Inr \<lparr>title = ''A'', slug = ''a'', description = None, price = 2.5,
          compare_at_price = None, category = ''c'', images = [''u''], model_url = None,
          variants = [], badges = [], rating = 4, review_count = 0, in_stock = True,
          specs = []\<rparr>"
  by (simp add: validate_Product_def body_ok_def strict_def required_def with_default_def
      str_validator_def float_validator_def int_validator_def bool_validator_def
      list_validator_def dict_validator_def nullable_def at_loc_def out_of_bounds_def
      make_Product_def)


section \<open>Text fields, creation and the schema description\<close>

lemmas evals =
  validate_Product_def strict_def required_def with_default_def
  str_validator_def float_validator_def int_validator_def bool_validator_def
  list_validator_def dict_validator_def nullable_def at_loc_def out_of_bounds_def
  make_Product_def

text \<open>
  C4 as stated fails: a record whose title, slug and category are the empty string
  validates.
\<close>

theorem empty_text_accepted:
  "map_of body_min ''title'' = Some (VStr '''') \<and>
   map_of body_min ''slug'' = Some (VStr '''') \<and>
   map_of body_min ''category'' = Some (VStr '''') \<and>
   validate_Product strict body_min =
     Inr \<lparr>title = '''', slug = '''', description = None, price = 1,
          compare_at_price = None, category = '''', images = [], model_url = None,
          variants = [], badges = [], rating = 5, review_count = 0, in_stock = True,
          specs = []\<rparr>"
  by (simp add: body_min_def evals)

lemma violated_text:
  assumes "f = ''title'' \<or> f = ''slug'' \<or> f = ''category''"
  shows "violated C obj f = (\<not> given (is_str C) (obj f))"
  using assms by (auto simp: violated_def Product_constraints_def)

text \<open>
  C4 as amended. For title, slug and category: a record in which the field is absent
  or is not text fails validation with an error naming the field; a record in which
  the field is text, the empty string included, has no error naming it.
\<close>

theorem required_text_fields:
  assumes "f = ''title'' \<or> f = ''slug'' \<or> f = ''category''"
  shows "((map_of kvs f = None \<or> (\<exists>v. map_of kvs f = Some v \<and> to_str C v = None)) \<longrightarrow>
            (\<exists>errs. validate_Product C kvs = Inl errs \<and> names errs f)) \<and>
         ((\<exists>v. map_of kvs f = Some v \<and> to_str C v \<noteq> None) \<longrightarrow>
            \<not> names (errors_of (validate_Product C kvs)) f)"
proof (intro conjI impI)
  assume "map_of kvs f = None \<or> (\<exists>v. map_of kvs f = Some v \<and> to_str C v = None)"
  then have "\<not> given (is_str C) (map_of kvs f)"
    by (auto simp: given_def is_str_def)
  then have v: "violated C (map_of kvs) f"
    by (simp add: violated_text [OF assms])
  then have "isl (validate_Product C kvs)"
    by (auto simp: validate_Product_isl)
  then obtain errs where e: "validate_Product C kvs = Inl errs"
    by (cases "validate_Product C kvs") auto
  with v validate_Product_names [of C kvs f] have "names errs f"
    by (simp add: errors_of_def)
  with e show "\<exists>errs. validate_Product C kvs = Inl errs \<and> names errs f"
    by blast
next
  assume "\<exists>v. map_of kvs f = Some v \<and> to_str C v \<noteq> None"
  then have "given (is_str C) (map_of kvs f)"
    by (auto simp: given_def is_str_def)
  then show "\<not> names (errors_of (validate_Product C kvs)) f"
    by (simp add: validate_Product_names violated_text [OF assms])
qed

lemma validate_body_untitled:
  "validate_Product strict body_untitled =
     Inl [([Name ''title''], Missing), ([Name ''category''], String_type)]"
  by (simp add: body_untitled_def evals)

theorem required_text_fields_witness:
  "map_of body_untitled ''title'' = None \<and>
   map_of body_untitled ''category'' = Some (VInt 3) \<and>
   to_str strict (VInt 3) = None \<and>
   names [([Name ''title''], Missing), ([Name ''category''], String_type)] ''title'' \<and>
   names [([Name ''title''], Missing), ([Name ''category''], String_type)] ''category'' \<and>
   map_of body_min ''title'' = Some (VStr '''') \<and>
   to_str strict (VStr '''') = Some '''' \<and>
   \<not> names (errors_of (validate_Product strict body_min)) ''title''"
proof -
  have a: "map_of body_untitled ''title'' = None"
    and b: "map_of body_untitled ''category'' = Some (VInt 3)"
    and c: "to_str strict (VInt 3) = None"
    and d: "map_of body_min ''title'' = Some (VStr '''')"
    and e: "to_str strict (VStr '''') = Some ''''"
    by (simp_all add: body_untitled_def body_min_def strict_def)
  from a required_text_fields [of "''title''" body_untitled strict]
  have 1: "names [([Name ''title''], Missing), ([Name ''category''], String_type)] ''title''"
    unfolding validate_body_untitled by simp
  from b c required_text_fields [of "''category''" body_untitled strict]
  have 2: "names [([Name ''title''], Missing), ([Name ''category''], String_type)] ''category''"
    unfolding validate_body_untitled by simp
  from d e required_text_fields [of "''title''" body_min strict]
  have 3: "\<not> names (errors_of (validate_Product strict body_min)) ''title''"
    by simp
  from a b c d e 1 2 3 show ?thesis
    by blast
qed

text \<open>
  C1 as stated fails: a body with the slug of a stored product and a negative price is
  answered with the validation errors, not with the duplicate-slug error.
\<close>

theorem invalid_duplicate_rejected_by_validation:
  "find_one (colls store1 product_collection) [(''slug'', ''a'')] =
     Some \<lparr>oid = Some 7, entries = [''slug'' \<mapsto> VStr ''a'', ''price'' \<mapsto> VFloat 3]\<rparr> \<and>
   map_of body_bad ''slug'' = Some (VStr ''a'') \<and>
   post_api_products strict (Some store1) body_bad =
     Inl (RequestValidationError
       [([Name ''price''], Greater_than_equal 0),
        ([Name ''images'', Idx 1], String_type),
        ([Name ''rating''], Less_than_equal 5),
        ([Name ''review_count''], Greater_than_equal 0)]) \<and>
   post_api_products strict (Some store1) body_bad \<noteq> Inl DuplicateSlug"
proof -
  have f: "find_one (colls store1 product_collection) [(''slug'', ''a'')] =
     Some \<lparr>oid = Some 7, entries = [''slug'' \<mapsto> VStr ''a'', ''price'' \<mapsto> VFloat 3]\<rparr>"
    by (simp add: store1_def product_collection_def find_one_def matches_def)
  have s: "map_of body_bad ''slug'' = Some (VStr ''a'')"
    by (simp add: body_bad_def)
  have p: "post_api_products strict (Some store1) body_bad =
     Inl (RequestValidationError
       [([Name ''price''], Greater_than_equal 0),
        ([Name ''images'', Idx 1], String_type),
        ([Name ''rating''], Less_than_equal 5),
        ([Name ''review_count''], Greater_than_equal 0)])"
    unfolding post_api_products_def validate_body_bad by simp
  have n: "post_api_products strict (Some store1) body_bad \<noteq> Inl DuplicateSlug"
    unfolding p by (simp add: DuplicateSlug_def)
  from f s p n show ?thesis
    by blast
qed

text \<open>
  C1 as amended. A body that fails validation is answered with its errors, whatever
  the store holds. For a body that validates, the slug is looked up before anything
  is written: a match gives the 400 "Slug already exists"; with a live handle and no
  match the record is inserted, and a second request with the same slug then gives
  the 400.
\<close>

theorem create_product_twice:
  assumes "validate_Product C body = Inr p" and "validate_Product C body' = Inr p'"
    and "slug p' = slug p"
  shows "(\<forall>db body0 errs. validate_Product C body0 = Inl errs \<longrightarrow>
            post_api_products C db body0 = Inl (RequestValidationError errs)) \<and>
         ((\<exists>doc \<in> set (colls d product_collection). matches doc [(''slug'', slug p)]) \<longrightarrow>
            post_api_products C (Some d) body = Inl DuplicateSlug) \<and>
         ((\<forall>doc \<in> set (colls d product_collection). \<not> matches doc [(''slug'', slug p)]) \<longrightarrow>
            (\<exists>d'. post_api_products C (Some d) body =
                     Inr ([(''id'', str_ObjectId (next_oid d))], Some d') \<and>
                  colls d' product_collection =
                    colls d product_collection @
                      [\<lparr>oid = Some (next_oid d), entries = model_dump p\<rparr>] \<and>
                  post_api_products C (Some d') body' = Inl DuplicateSlug))"
proof (intro conjI allI impI)
  fix db body0 errs
  assume "validate_Product C body0 = Inl errs"
  then show "post_api_products C db body0 = Inl (RequestValidationError errs)"
    by (simp add: post_api_products_def)
next
  assume "\<exists>doc \<in> set (colls d product_collection). matches doc [(''slug'', slug p)]"
  then show "post_api_products C (Some d) body = Inl DuplicateSlug"
    using assms(1) by (auto simp: post_api_products_def intro: create_product_duplicate)
next
  assume fresh: "\<forall>doc \<in> set (colls d product_collection). \<not> matches doc [(''slug'', slug p)]"
  let ?new = "\<lparr>oid = Some (next_oid d), entries = model_dump p\<rparr>"
  let ?d' = "d\<lparr>colls := (colls d)(product_collection := colls d product_collection @ [?new]),
               next_oid := next_oid d + 1\<rparr>"
  have 1: "post_api_products C (Some d) body =
             Inr ([(''id'', str_ObjectId (next_oid d))], Some ?d')"
    using assms(1) create_product_live [OF fresh] by (simp add: post_api_products_def)
  have 2: "colls ?d' product_collection = colls d product_collection @ [?new]"
    by simp
  have "matches ?new [(''slug'', slug p')]"
    unfolding assms(3) by (rule matches_dump_slug)
  then have "create_product (Some ?d') p' = Inl DuplicateSlug"
    by (intro create_product_duplicate [of ?new]) simp_all
  then have 3: "post_api_products C (Some ?d') body' = Inl DuplicateSlug"
    using assms(2) by (simp add: post_api_products_def)
  from 1 2 3 show "\<exists>d'. post_api_products C (Some d) body =
                     Inr ([(''id'', str_ObjectId (next_oid d))], Some d') \<and>
                  colls d' product_collection =
                    colls d product_collection @ [?new] \<and>
                  post_api_products C (Some d') body' = Inl DuplicateSlug"
    by blast
qed

theorem create_product_twice_witness:
  "(\<exists>d'. post_api_products strict (Some store0) body_ok = Inr ([(''id'', str_ObjectId 0)], Some d') \<and>
         post_api_products strict (Some d') body_ok = Inl (HTTPException 400 ''Slug already exists'')) \<and>
   post_api_products strict (Some store1) body_ok = Inl (HTTPException 400 ''Slug already exists'')"
proof -
  let ?p = "\<lparr>title = ''A'', slug = ''a'', description = None, price = 2.5,
          compare_at_price = None, category = ''c'', images = [''u''], model_url = None,
          variants = [], badges = [], rating = 4, review_count = 0, in_stock = True,
          specs = []\<rparr>"
  note t = create_product_twice [OF validate_body_ok validate_body_ok refl]
  have f0: "\<forall>doc \<in> set (colls store0 product_collection). \<not> matches doc [(''slug'', slug ?p)]"
    by (simp add: store0_def)
  have f1: "\<exists>doc \<in> set (colls store1 product_collection). matches doc [(''slug'', slug ?p)]"
    by (simp add: store1_def product_collection_def matches_def)
  have n: "next_oid store0 = 0" by (simp add: store0_def)
  from t [of store0] f0 t [of store1] f1 show ?thesis
    unfolding n DuplicateSlug_def by blast
qed

text \<open>
  C9. The description returned under \<^verbatim>\<open>models.product\<close> has exactly the fourteen
  declared fields as its properties, each once; they are the keys of the dict form of
  every product and the fields the validator constrains.
\<close>

theorem product_schema_fields:
  "\<exists>models sch.
      map_of get_schema ''models'' = Some models \<and>
      map_of models ''product'' = Some sch \<and>
      map fst (properties sch) =
        [''title'', ''slug'', ''description'', ''price'', ''compare_at_price'', ''category'',
         ''images'', ''model_url'', ''variants'', ''badges'', ''rating'', ''review_count'',
         ''in_stock'', ''specs''] \<and>
      distinct (map fst (properties sch)) \<and>
      (\<forall>p. dom (model_dump p) = set (map fst (properties sch))) \<and>
      (\<forall>C. map fst (Product_constraints C) = map fst (properties sch))"
proof -
  let ?sch = "model_json_schema ''Product'' Product_model_fields"
  have names: "map fst (properties ?sch) =
        [''title'', ''slug'', ''description'', ''price'', ''compare_at_price'', ''category'',
         ''images'', ''model_url'', ''variants'', ''badges'', ''rating'', ''review_count'',
         ''in_stock'', ''specs'']"
    by (simp add: model_json_schema_def Product_model_fields_def)
  have d: "distinct (map fst (properties ?sch))"
    unfolding names by simp
  have m: "dom (model_dump p) = set (map fst (properties ?sch))" for p
    unfolding names by (auto simp: model_dump_def)
  have c: "map fst (Product_constraints C) = map fst (properties ?sch)" for C
    unfolding names by (simp add: Product_constraints_def)
  have g: "map_of get_schema ''models'' = Some [(''product'', ?sch)]"
    and h: "map_of [(''product'', ?sch)] ''product'' = Some ?sch"
    by (simp_all add: get_schema_def)
  show ?thesis
    using g h names d m c
    by (intro exI [of _ "[(''product'', ?sch)]"] exI [of _ ?sch] conjI allI)
qed

end
